theory Spec2Isabelle
  imports Complex_Main
begin

section \<open>JavaScript numbers and request values\<close>

text \<open>
  The handlers of \<open>src/src/routes/vendorRoutes.js\<close> compute with JavaScript numbers.
  A number is modelled as an exact rational, one of the two infinities, or \<open>NaN\<close>:
  the branches the code takes on \<open>NaN\<close> (\<open>Number.isNaN\<close>, \<open>||\<close>, comparisons that
  are false) are all kept. The rounding of IEEE doubles and the sign of zero are not
  modelled: arithmetic on finite values is exact.
\<close>

datatype number = NaN | NegInf | Fin rat | PosInf

fun num_neg :: "number \<Rightarrow> number" where
  "num_neg NaN = NaN"
| "num_neg NegInf = PosInf"
| "num_neg (Fin a) = Fin (- a)"
| "num_neg PosInf = NegInf"

text \<open>The operator \<open>+\<close> on numbers.\<close>

fun num_add :: "number \<Rightarrow> number \<Rightarrow> number" where
  "num_add NaN b = NaN"
| "num_add (Fin a) NaN = NaN"
| "num_add (Fin a) NegInf = NegInf"
| "num_add (Fin a) (Fin b) = Fin (a + b)"
| "num_add (Fin a) PosInf = PosInf"
| "num_add PosInf NaN = NaN"
| "num_add PosInf NegInf = NaN"
| "num_add PosInf (Fin b) = PosInf"
| "num_add PosInf PosInf = PosInf"
| "num_add NegInf NaN = NaN"
| "num_add NegInf NegInf = NegInf"
| "num_add NegInf (Fin b) = NegInf"
| "num_add NegInf PosInf = NaN"

text \<open>The operator \<open>-\<close> on numbers.\<close>

definition num_sub :: "number \<Rightarrow> number \<Rightarrow> number" where
  "num_sub a b = num_add a (num_neg b)"

text \<open>The comparisons \<open><\<close>, \<open><=\<close>, \<open>>\<close>, \<open>>=\<close> and \<open>===\<close>: all false when a side is \<open>NaN\<close>.\<close>

fun num_lt :: "number \<Rightarrow> number \<Rightarrow> bool" where
  "num_lt NaN b = False"
| "num_lt NegInf NaN = False"
| "num_lt NegInf NegInf = False"
| "num_lt NegInf (Fin b) = True"
| "num_lt NegInf PosInf = True"
| "num_lt (Fin a) NaN = False"
| "num_lt (Fin a) NegInf = False"
| "num_lt (Fin a) (Fin b) = (a < b)"
| "num_lt (Fin a) PosInf = True"
| "num_lt PosInf b = False"

fun num_eq :: "number \<Rightarrow> number \<Rightarrow> bool" where
  "num_eq NaN b = False"
| "num_eq NegInf b = (b = NegInf)"
| "num_eq (Fin a) b = (b = Fin a)"
| "num_eq PosInf b = (b = PosInf)"

definition num_le :: "number \<Rightarrow> number \<Rightarrow> bool" where
  "num_le a b = (num_lt a b \<or> num_eq a b)"

definition num_gt :: "number \<Rightarrow> number \<Rightarrow> bool" where
  "num_gt a b = num_lt b a"

definition num_ge :: "number \<Rightarrow> number \<Rightarrow> bool" where
  "num_ge a b = num_le b a"

text \<open>\<open>Math.abs\<close>, \<open>Math.max\<close> (which is \<open>NaN\<close> when an argument is), \<open>Number.isNaN\<close>
  and \<open>Number.EPSILON\<close>, which is \<open>2^-52\<close>.\<close>

fun num_abs :: "number \<Rightarrow> number" where
  "num_abs NaN = NaN"
| "num_abs NegInf = PosInf"
| "num_abs (Fin a) = Fin \<bar>a\<bar>"
| "num_abs PosInf = PosInf"

definition num_max :: "number \<Rightarrow> number \<Rightarrow> number" where
  "num_max a b = (if a = NaN then NaN else if b = NaN then NaN else if num_lt a b then b else a)"

definition isNaN :: "number \<Rightarrow> bool" where
  "isNaN a = (a = NaN)"

definition EPSILON :: number where
  "EPSILON = Fin (1 / 2 ^ 52)"

text \<open>
  A field of a request body. With the JSON body parser of \<open>src/server.js\<close> a field is
  any JSON value; in a multipart form it is a string; a field that is not sent is
  \<open>undefined\<close>.
\<close>

datatype jsval = JUndefined | JNull | JBool bool | JStr string | JNum number

text \<open>JavaScript's truthiness: \<open>!x\<close> is \<open>falsy x\<close>.\<close>

fun truthy :: "jsval \<Rightarrow> bool" where
  "truthy JUndefined = False"
| "truthy JNull = False"
| "truthy (JBool b) = b"
| "truthy (JStr s) = (s \<noteq> [])"
| "truthy (JNum NaN) = False"
| "truthy (JNum (Fin a)) = (a \<noteq> 0)"
| "truthy (JNum NegInf) = True"
| "truthy (JNum PosInf) = True"

definition falsy :: "jsval \<Rightarrow> bool" where
  "falsy x = (\<not> truthy x)"

text \<open>The text fields of a request (names, addresses, notes) are strings or absent;
  the empty string is falsy.\<close>

definition text_falsy :: "string option \<Rightarrow> bool" where
  "text_falsy x = (case x of None \<Rightarrow> True | Some s \<Rightarrow> s = [])"

text \<open>\<open>a || b\<close> on text fields and on numbers.\<close>

definition text_or :: "string option \<Rightarrow> string option \<Rightarrow> string option" where
  "text_or a b = (if text_falsy a then b else a)"

definition num_or :: "number \<Rightarrow> number \<Rightarrow> number" where
  "num_or a b = (if truthy (JNum a) then a else b)"

subsection \<open>parseFloat\<close>

text \<open>
  \<open>parseFloat\<close> converts its argument to a string, skips leading white space (here the
  ASCII white space), and reads the longest prefix that is a decimal literal: an optional
  sign, then \<open>Infinity\<close> or digits with an optional fraction and an optional exponent.
  Whatever follows is ignored. With no such prefix the result is \<open>NaN\<close>.
\<close>

definition is_space :: "char \<Rightarrow> bool" where
  "is_space c = (let n = (of_char c :: nat) in n = 32 \<or> (9 \<le> n \<and> n \<le> 13))"

definition is_digit :: "char \<Rightarrow> bool" where
  "is_digit c = (let n = (of_char c :: nat) in 48 \<le> n \<and> n \<le> 57)"

definition digits_val :: "string \<Rightarrow> nat" where
  "digits_val ds = foldl (\<lambda>acc c. 10 * acc + (of_char c - 48)) 0 ds"

definition pow10 :: "int \<Rightarrow> rat" where
  "pow10 e = (if 0 \<le> e then 10 ^ nat e else 1 / 10 ^ nat (- e))"

text \<open>A leading sign: whether it is a minus, and the rest.\<close>

fun read_sign :: "string \<Rightarrow> bool \<times> string" where
  "read_sign [] = (False, [])"
| "read_sign (c # r) =
     (if c = CHR ''-'' then (True, r) else if c = CHR ''+'' then (False, r) else (False, c # r))"

text \<open>The exponent part \<open>e\<close> or \<open>E\<close>, an optional sign and at least one digit; 0 when there
  is none.\<close>

fun read_exponent :: "string \<Rightarrow> int" where
  "read_exponent [] = 0"
| "read_exponent (c # r) =
     (if c = CHR ''e'' \<or> c = CHR ''E'' then
        (let (neg, r') = read_sign r; ds = takeWhile is_digit r'
         in if ds = [] then 0
            else if neg then - int (digits_val ds) else int (digits_val ds))
      else 0)"

definition parseFloat_str :: "string \<Rightarrow> number" where
  "parseFloat_str s =
     (let (neg, u) = read_sign (dropWhile is_space s) in
      if take 8 u = ''Infinity'' then (if neg then NegInf else PosInf)
      else
        let ip = takeWhile is_digit u;
            r1 = dropWhile is_digit u;
            fp = (case r1 of [] \<Rightarrow> [] | c # r \<Rightarrow> if c = CHR ''.'' then takeWhile is_digit r else []);
            r2 = (case r1 of [] \<Rightarrow> [] | c # r \<Rightarrow> if c = CHR ''.'' then dropWhile is_digit r else r1);
            m = (of_nat (digits_val ip) + of_nat (digits_val fp) / 10 ^ length fp) * pow10 (read_exponent r2)
        in if ip = [] \<and> fp = [] then NaN
           else Fin (if neg then - m else m))"

text \<open>On a number \<open>parseFloat\<close> gives the number back; \<open>undefined\<close>, \<open>null\<close> and booleans
  read as the strings \<open>undefined\<close>, \<open>null\<close>, \<open>true\<close>, \<open>false\<close>, which hold no number.\<close>

fun parseFloat :: "jsval \<Rightarrow> number" where
  "parseFloat (JNum n) = n"
| "parseFloat (JStr s) = parseFloat_str s"
| "parseFloat JUndefined = NaN"
| "parseFloat JNull = NaN"
| "parseFloat (JBool b) = NaN"

section \<open>The database\<close>

text \<open>
  The tables \<open>vendors\<close> and \<open>transactions\<close>. A \<open>numeric\<close> column holds a number or SQL
  \<open>NULL\<close> (\<open>None\<close>); the driver returns it as a string, which \<open>parseFloat\<close> reads back, and
  \<open>parseFloat(null)\<close> is \<open>NaN\<close>. Dates are abstract time stamps.
\<close>

datatype status = Pending | Partial | Paid

record vendor =
  vendor_id :: int
  vendor_name :: "string option"
  vendor_contact_number :: "string option"
  vendor_address :: "string option"
  vendor_bill :: "string option"
  total_amount :: "number option"
  pending_amount :: "number option"

record transaction_row =
  transaction_id :: int
  tx_vendor_id :: int
  transaction_date :: nat
  amount :: "number option"
  tx_note :: "string option"
  tx_status :: status

record db =
  vendors :: "vendor list"
  transactions :: "transaction_row list"
  next_vendor_id :: int
  next_transaction_id :: int

definition parseFloat_col :: "number option \<Rightarrow> number" where
  "parseFloat_col x = (case x of None \<Rightarrow> NaN | Some n \<Rightarrow> n)"

text \<open>
  PostgreSQL prepares a statement sent with \<open>n\<close> values only if its placeholders are
  exactly \<open>$1\<close> to \<open>$n\<close>: a placeholder beyond \<open>n\<close>, or a number up to the largest
  placeholder that the statement never mentions, is an error, which the handler's
  \<open>catch\<close> turns into a 500 response.
\<close>

definition pg_accepts :: "nat list \<Rightarrow> nat \<Rightarrow> bool" where
  "pg_accepts placeholders n =
     (list_all (\<lambda>i. i \<in> set placeholders) [1..<Suc n] \<and>
      list_all (\<lambda>p. 1 \<le> p \<and> p \<le> n) placeholders)"

text \<open>SQL on \<open>numeric\<close> values: \<open>+\<close> and \<open>COALESCE\<close>, and \<open>GREATEST\<close> and \<open>LEAST\<close>, which skip
  \<open>NULL\<close> arguments and order \<open>NaN\<close> above every other value.\<close>

definition sql_coalesce :: "'a option \<Rightarrow> 'a option \<Rightarrow> 'a option" where
  "sql_coalesce a b = (case a of None \<Rightarrow> b | Some x \<Rightarrow> Some x)"

definition sql_add :: "number option \<Rightarrow> number option \<Rightarrow> number option" where
  "sql_add a b =
     (case a of None \<Rightarrow> None | Some x \<Rightarrow> (case b of None \<Rightarrow> None | Some y \<Rightarrow> Some (num_add x y)))"

definition sql_lt :: "number \<Rightarrow> number \<Rightarrow> bool" where
  "sql_lt a b = (if a = NaN then False else if b = NaN then True else num_lt a b)"

definition sql_greatest :: "number option \<Rightarrow> number option \<Rightarrow> number option" where
  "sql_greatest a b =
     (case a of None \<Rightarrow> b
      | Some x \<Rightarrow> (case b of None \<Rightarrow> Some x | Some y \<Rightarrow> Some (if sql_lt x y then y else x)))"

definition sql_least :: "number option \<Rightarrow> number option \<Rightarrow> number option" where
  "sql_least a b =
     (case a of None \<Rightarrow> b
      | Some x \<Rightarrow> (case b of None \<Rightarrow> Some x | Some y \<Rightarrow> Some (if sql_lt y x then y else x)))"

datatype error = BadRequest string | NotFound string | ServerError

definition find_vendor :: "int \<Rightarrow> db \<Rightarrow> vendor option" where
  "find_vendor vid d = find (\<lambda>v. vendor_id v = vid) (vendors d)"

section \<open>The handlers\<close>

text \<open>
  Each handler takes the request and the database and returns the response with the
  database it leaves: an error response is \<open>Inl\<close>, a success response \<open>Inr\<close>. An id in
  the URL is what \<open>parseInt\<close> made of it: \<open>None\<close> stands for \<open>NaN\<close>.

  The statements a handler sends are given by their placeholders and the number of
  values sent with them, as the source has them. A statement the database refuses
  throws; the handler's \<open>catch\<close> answers 500, and the handlers that opened a transaction
  roll it back, so that the database is as before.
\<close>

subsection \<open>POST /: create vendor\<close>

text \<open>The bill file of the request: none, one that the media store accepts (giving its
  URL), or one whose upload throws.\<close>

datatype upload = NoFile | Uploaded string | UploadFails

record create_req =
  cr_vendor_name :: "string option"
  cr_vendor_contact_number :: "string option"
  cr_vendor_address :: "string option"
  cr_total_amount :: jsval
  cr_file :: upload

definition create_vendor :: "create_req \<Rightarrow> db \<Rightarrow> (error + vendor \<times> status) \<times> db" where
  "create_vendor req d =
     (if text_falsy (cr_vendor_name req) \<or> text_falsy (cr_vendor_contact_number req)
         \<or> falsy (cr_total_amount req)
      then (Inl (BadRequest ''Name, contact, and total amount are required''), d)
      else
        let total' = parseFloat (cr_total_amount req) in
        if isNaN total' \<or> num_lt total' (Fin 0)
        then (Inl (BadRequest ''Invalid total_amount''), d)
        else if cr_file req = UploadFails then (Inl ServerError, d)
        else
          let bill = (case cr_file req of Uploaded url \<Rightarrow> Some url | _ \<Rightarrow> None);
              status = Pending;
              pending = total'
          in if pg_accepts [1, 2, 3, 4, 5, 6] 6 then
               let v = \<lparr>vendor_id = next_vendor_id d,
                        vendor_name = cr_vendor_name req,
                        vendor_contact_number = cr_vendor_contact_number req,
                        vendor_address = cr_vendor_address req,
                        vendor_bill = bill,
                        total_amount = Some total',
                        pending_amount = Some pending\<rparr>
               in (Inr (v, status),
                   d\<lparr>vendors := vendors d @ [v], next_vendor_id := next_vendor_id d + 1\<rparr>)
             else (Inl ServerError, d))"

subsection \<open>POST /:vendorId/transactions: add transaction\<close>

record tx_req =
  tr_id :: "int option"
  tr_amount :: jsval
  tr_note :: "string option"
  tr_transaction_date :: "nat option"
  tr_now :: nat

record add_resp =
  ar_transaction :: transaction_row
  ar_vendor :: "vendor option"
  ar_status :: status
  ar_overpayment :: number

text \<open>Lines 214 to 223: the new pending amount and the status.\<close>

definition add_balance :: "number \<Rightarrow> number \<Rightarrow> number \<Rightarrow> number \<times> status" where
  "add_balance total' currentPending amt =
     (let newPending = num_sub currentPending amt in
      if num_le newPending (Fin 0) then (Fin 0, Paid)
      else if num_lt (num_abs (num_sub newPending total')) EPSILON then (newPending, Pending)
      else (newPending, Partial))"

text \<open>\<open>UPDATE vendors SET pending_amount = $1 WHERE vendor_id = $2\<close>.\<close>

definition set_pending :: "int \<Rightarrow> number \<Rightarrow> db \<Rightarrow> db" where
  "set_pending vid p d =
     d\<lparr>vendors := map (\<lambda>v. if vendor_id v = vid then v\<lparr>pending_amount := Some p\<rparr> else v) (vendors d)\<rparr>"

definition add_transaction :: "tx_req \<Rightarrow> db \<Rightarrow> (error + add_resp) \<times> db" where
  "add_transaction req d =
     (case tr_id req of
        None \<Rightarrow> (Inl (BadRequest ''Invalid vendorId in URL''), d)
      | Some vendorId \<Rightarrow>
          let amt = parseFloat (tr_amount req) in
          if isNaN amt \<or> num_le amt (Fin 0)
          then (Inl (BadRequest ''amount is required and must be a positive number''), d)
          else
            (case find_vendor vendorId d of
               None \<Rightarrow> (Inl (NotFound ''Vendor not found''), d)
             | Some vendor \<Rightarrow>
                 let total' = parseFloat_col (total_amount vendor);
                     currentPending = (case pending_amount vendor of
                                         Some p \<Rightarrow> p | None \<Rightarrow> total');
                     (newPending, status) = add_balance total' currentPending amt
                 in if pg_accepts [1, 2, 3, 4, 5] 5 \<and> pg_accepts [1, 2] 2 then
                      let tx = \<lparr>transaction_id = next_transaction_id d,
                                tx_vendor_id = vendorId,
                                transaction_date = (case tr_transaction_date req of
                                                      Some t \<Rightarrow> t | None \<Rightarrow> tr_now req),
                                amount = Some amt,
                                tx_note = text_or (tr_note req) None,
                                tx_status = status\<rparr>;
                          d1 = d\<lparr>transactions := transactions d @ [tx],
                                 next_transaction_id := next_transaction_id d + 1\<rparr>;
                          d2 = set_pending vendorId newPending d1
                      in (Inr \<lparr>ar_transaction = tx,
                               ar_vendor = find_vendor vendorId d2,
                               ar_status = status,
                               ar_overpayment = (if num_gt amt currentPending
                                                 then num_sub amt currentPending else Fin 0)\<rparr>,
                          d2)
                    else (Inl ServerError, d)))"

subsection \<open>PUT /transactions/:transactionId: update transaction\<close>

record update_tx_resp =
  ur_transaction :: "transaction_row option"
  ur_vendor :: "vendor option"
  ur_status :: "status option"

text \<open>Lines 132 to 135: the old amount is given back and the new one taken.\<close>

definition update_balance :: "number \<Rightarrow> number \<Rightarrow> number \<Rightarrow> number \<Rightarrow> number" where
  "update_balance total' currentPending oldAmount amt =
     (let newPending = num_sub (num_add currentPending oldAmount) amt;
          newPending = (if num_lt newPending (Fin 0) then Fin 0 else newPending);
          newPending = (if num_gt newPending total' then total' else newPending)
      in newPending)"

text \<open>The \<open>SET\<close> clause of lines 140 to 143, on one row.\<close>

definition tx_update_set ::
  "number \<Rightarrow> nat option \<Rightarrow> string option \<Rightarrow> transaction_row \<Rightarrow> transaction_row" where
  "tx_update_set amt date nt x =
     x\<lparr>amount := Some amt,
       transaction_date := (case date of Some t \<Rightarrow> t | None \<Rightarrow> transaction_date x),
       tx_note := nt\<rparr>"

text \<open>
  The handler, with the placeholders \<open>ph\<close> of its \<open>UPDATE transactions\<close> statement (lines
  139 to 147), which is sent with four values. The variable \<open>status\<close> of line 137 is never
  assigned, so a success response carries no status.
\<close>

definition update_transaction_with ::
  "nat list \<Rightarrow> tx_req \<Rightarrow> db \<Rightarrow> (error + update_tx_resp) \<times> db" where
  "update_transaction_with ph req d =
     (case tr_id req of
        None \<Rightarrow> (Inl (BadRequest ''Invalid transactionId in URL''), d)
      | Some transactionId \<Rightarrow>
          let amt = parseFloat (tr_amount req) in
          if isNaN amt \<or> num_le amt (Fin 0)
          then (Inl (BadRequest ''amount is required and must be a positive number''), d)
          else
            (case find (\<lambda>x. transaction_id x = transactionId) (transactions d) of
               None \<Rightarrow> (Inl (NotFound ''Transaction not found''), d)
             | Some tx \<Rightarrow>
                 let vendorId = tx_vendor_id tx;
                     oldAmount = parseFloat_col (amount tx)
                 in (case find_vendor vendorId d of
                       None \<Rightarrow> (Inl (NotFound ''Vendor not found''), d)
                     | Some vendor \<Rightarrow>
                         let total' = parseFloat_col (total_amount vendor);
                             currentPending = (case pending_amount vendor of
                                                 Some p \<Rightarrow> p | None \<Rightarrow> total');
                             newPending = update_balance total' currentPending oldAmount amt
                         in if pg_accepts ph 4 \<and> pg_accepts [1, 2] 2 then
                              let d1 = d\<lparr>transactions :=
                                         map (\<lambda>x. if transaction_id x = transactionId
                                                   then tx_update_set amt (tr_transaction_date req)
                                                          (text_or (tr_note req) None) x
                                                   else x) (transactions d)\<rparr>;
                                  d2 = set_pending vendorId newPending d1
                              in (Inr \<lparr>ur_transaction =
                                         find (\<lambda>x. transaction_id x = transactionId) (transactions d2),
                                       ur_vendor = find_vendor vendorId d2,
                                       ur_status = None\<rparr>,
                                  d2)
                            else (Inl ServerError, d))))"

text \<open>The source names the placeholders \<open>$1\<close>, \<open>$2\<close>, \<open>$3\<close> and \<open>$5\<close>.\<close>

definition update_transaction :: "tx_req \<Rightarrow> db \<Rightarrow> (error + update_tx_resp) \<times> db" where
  "update_transaction req d = update_transaction_with [1, 2, 3, 5] req d"

subsection \<open>DELETE /:vendorId/transactions/:transactionId: delete transaction\<close>

record delete_tx_req =
  dr_vendor_id :: "int option"
  dr_transaction_id :: "int option"

text \<open>Line 291: \<open>LEAST(GREATEST(COALESCE(pending_amount, total_amount) + $1, 0), total_amount)\<close>.\<close>

definition restore_pending :: "number \<Rightarrow> vendor \<Rightarrow> vendor" where
  "restore_pending txAmount v =
     v\<lparr>pending_amount :=
         sql_least
           (sql_greatest
              (sql_add (sql_coalesce (pending_amount v) (total_amount v)) (Some txAmount))
              (Some (Fin 0)))
           (total_amount v)\<rparr>"

definition delete_transaction :: "delete_tx_req \<Rightarrow> db \<Rightarrow> (error + string) \<times> db" where
  "delete_transaction req d =
     (case dr_vendor_id req of
        None \<Rightarrow> (Inl (BadRequest ''Invalid vendorId or transactionId''), d)
      | Some vendorId \<Rightarrow>
          (case dr_transaction_id req of
             None \<Rightarrow> (Inl (BadRequest ''Invalid vendorId or transactionId''), d)
           | Some transactionId \<Rightarrow>
               (case find (\<lambda>x. transaction_id x = transactionId \<and> tx_vendor_id x = vendorId)
                       (transactions d) of
                  None \<Rightarrow> (Inl (NotFound ''Transaction not found''), d)
                | Some tx \<Rightarrow>
                    let txAmount = parseFloat_col (amount tx) in
                    if pg_accepts [1, 2] 2 \<and> pg_accepts [1] 1 then
                      let d1 = d\<lparr>transactions :=
                                 filter (\<lambda>x. transaction_id x \<noteq> transactionId) (transactions d)\<rparr>;
                          d2 = d1\<lparr>vendors :=
                                  map (\<lambda>v. if vendor_id v = vendorId
                                            then restore_pending txAmount v else v) (vendors d1)\<rparr>
                      in (Inr ''Transaction deleted'', d2)
                    else (Inl ServerError, d))))"

subsection \<open>GET /: list vendors\<close>



subsection \<open>PUT /:id: update vendor\<close>

text \<open>The id goes to the database as it came: one that is no integer (\<open>None\<close>) makes the
  first query throw. The file of this handler is kept by its local path.\<close>

record update_vendor_req =
  uv_id :: "int option"
  uv_vendor_name :: "string option"
  uv_vendor_contact_number :: "string option"
  uv_vendor_address :: "string option"
  uv_total_amount :: jsval
  uv_new_paid_amount :: jsval
  uv_file :: "string option"
  uv_now :: nat

record update_vendor_resp =
  uvr_vendor :: "vendor option"
  uvr_paid_amount :: number
  uvr_status :: status

text \<open>Lines 398 to 408: the total, what was paid, the status and the new pending amount.
  The default \<open>new_paid_amount = 0\<close> of the destructuring applies to \<open>undefined\<close>.\<close>

definition new_paid :: "jsval \<Rightarrow> number" where
  "new_paid x = num_or (parseFloat (if x = JUndefined then JNum (Fin 0) else x)) (Fin 0)"

definition vendor_total :: "jsval \<Rightarrow> vendor \<Rightarrow> number" where
  "vendor_total total_amount_field v =
     (if truthy total_amount_field then parseFloat total_amount_field
      else parseFloat_col (total_amount v))"

definition total_paid :: "number \<Rightarrow> number \<Rightarrow> vendor \<Rightarrow> number" where
  "total_paid total' paid v =
     (let alreadyPaid = num_sub total' (parseFloat_col (pending_amount v))
      in num_add alreadyPaid paid)"

definition paid_status :: "number \<Rightarrow> number \<Rightarrow> status" where
  "paid_status total' totalPaid =
     (if num_eq totalPaid (Fin 0) then Pending
      else if num_ge totalPaid total' then Paid
      else Partial)"

definition update_vendor :: "update_vendor_req \<Rightarrow> db \<Rightarrow> (error + update_vendor_resp) \<times> db" where
  "update_vendor req d =
     (case uv_id req of
        None \<Rightarrow> (Inl ServerError, d)
      | Some vendorId \<Rightarrow>
          (case find_vendor vendorId d of
             None \<Rightarrow> (Inl (NotFound ''Vendor not found''), d)
           | Some vendor \<Rightarrow>
               let updatedVendorBill = (case uv_file req of
                                          Some path \<Rightarrow> Some path | None \<Rightarrow> vendor_bill vendor);
                   total' = vendor_total (uv_total_amount req) vendor;
                   paid = new_paid (uv_new_paid_amount req);
                   totalPaid = total_paid total' paid vendor;
                   status = paid_status total' totalPaid;
                   pending = num_max (num_sub total' totalPaid) (Fin 0)
               in if pg_accepts [1, 2, 3, 4, 5, 6, 7] 7 \<and> pg_accepts [1, 2, 3, 4] 4 then
                    let d1 = d\<lparr>vendors :=
                               map (\<lambda>v. if vendor_id v = vendorId
                                         then v\<lparr>vendor_name := text_or (uv_vendor_name req) (vendor_name vendor),
                                                vendor_contact_number :=
                                                  text_or (uv_vendor_contact_number req)
                                                    (vendor_contact_number vendor),
                                                vendor_address :=
                                                  text_or (uv_vendor_address req) (vendor_address vendor),
                                                vendor_bill := updatedVendorBill,
                                                total_amount := Some total',
                                                pending_amount := Some pending\<rparr>
                                         else v) (vendors d)\<rparr>;
                        d2 = (if num_gt paid (Fin 0)
                              then d1\<lparr>transactions := transactions d1 @
                                        [\<lparr>transaction_id = next_transaction_id d1,
                                          tx_vendor_id = vendorId,
                                          transaction_date = uv_now req,
                                          amount = Some paid,
                                          tx_note = Some ''Payment update'',
                                          tx_status = status\<rparr>],
                                      next_transaction_id := next_transaction_id d1 + 1\<rparr>
                              else d1)
                    in (Inr \<lparr>uvr_vendor = find_vendor vendorId d1,
                             uvr_paid_amount = totalPaid,
                             uvr_status = status\<rparr>,
                        d2)
                  else (Inl ServerError, d)))"

section \<open>Notions of the specification and example data\<close>

text \<open>The specification's \<open>clamp(x, lo, hi)\<close>, which is line 291's
  \<open>LEAST(GREATEST(x, lo), hi)\<close>.\<close>

definition clamp :: "rat \<Rightarrow> rat \<Rightarrow> rat \<Rightarrow> rat" where
  "clamp x lo hi = min (max x lo) hi"

text \<open>The run of the specification: a vendor billed 1000 who has paid 400 in one
  transaction.\<close>

definition example_vendor :: vendor where
  "example_vendor =
     \<lparr>vendor_id = 1, vendor_name = Some ''Acme'', vendor_contact_number = Some ''555-0100'',
      vendor_address = None, vendor_bill = None,
      total_amount = Some (Fin 1000), pending_amount = Some (Fin 600)\<rparr>"

definition example_tx :: transaction_row where
  "example_tx =
     \<lparr>transaction_id = 1, tx_vendor_id = 1, transaction_date = 0, amount = Some (Fin 400),
      tx_note = None, tx_status = Partial\<rparr>"

definition example_db :: db where
  "example_db =
     \<lparr>vendors = [example_vendor], transactions = [example_tx],
      next_vendor_id = 2, next_transaction_id = 2\<rparr>"

text \<open>A request body \<open>{amount: a}\<close> for vendor 1, or for transaction 1.\<close>

definition pay :: "rat \<Rightarrow> tx_req" where
  "pay a = \<lparr>tr_id = Some 1, tr_amount = JNum (Fin a), tr_note = None,
            tr_transaction_date = None, tr_now = 1\<rparr>"




text \<open>The invariant of the specification on a vendor row, \<open>0 \<le> pending_amount \<le>
  total_amount\<close>, and on the table.\<close>

definition vendor_inv :: "vendor \<Rightarrow> bool" where
  "vendor_inv v =
     (num_le (Fin 0) (parseFloat_col (pending_amount v)) \<and>
      num_le (parseFloat_col (pending_amount v)) (parseFloat_col (total_amount v)))"

definition db_inv :: "db \<Rightarrow> bool" where
  "db_inv d = list_all vendor_inv (vendors d)"



text \<open>Requests on the example data: an update of vendor 1 that sends only
  \<open>total_amount\<close> and \<open>new_paid_amount\<close>, and the creation of a vendor with a given
  \<open>total_amount\<close> field.\<close>

definition set_total :: "jsval \<Rightarrow> jsval \<Rightarrow> update_vendor_req" where
  "set_total total_field paid_field =
     \<lparr>uv_id = Some 1, uv_vendor_name = None, uv_vendor_contact_number = None,
      uv_vendor_address = None, uv_total_amount = total_field,
      uv_new_paid_amount = paid_field, uv_file = None, uv_now = 1\<rparr>"

definition new_vendor :: "jsval \<Rightarrow> create_req" where
  "new_vendor total_field =
     \<lparr>cr_vendor_name = Some ''Bolt'', cr_vendor_contact_number = Some ''555-0101'',
      cr_vendor_address = None, cr_total_amount = total_field, cr_file = NoFile\<rparr>"

section \<open>Statements and lookups\<close>

text \<open>Every statement of the handlers is sent with as many values as it has
  placeholders, but the \<open>UPDATE transactions\<close> of line 140.\<close>

lemma pg_accepts_1: "pg_accepts [1] 1" "pg_accepts [Suc 0] 1" "pg_accepts [Suc 0] (Suc 0)"
  by code_simp+

lemma pg_accepts_2: "pg_accepts [1, 2] 2" "pg_accepts [Suc 0, 2] 2"
  by code_simp+

lemma pg_accepts_4: "pg_accepts [1, 2, 3, 4] 4" "pg_accepts [Suc 0, 2, 3, 4] 4"
  by code_simp+

lemma pg_accepts_5: "pg_accepts [1, 2, 3, 4, 5] 5" "pg_accepts [Suc 0, 2, 3, 4, 5] 5"
  by code_simp+

lemma pg_accepts_6: "pg_accepts [1, 2, 3, 4, 5, 6] 6" "pg_accepts [Suc 0, 2, 3, 4, 5, 6] 6"
  by code_simp+

lemma pg_accepts_7: "pg_accepts [1, 2, 3, 4, 5, 6, 7] 7" "pg_accepts [Suc 0, 2, 3, 4, 5, 6, 7] 7"
  by code_simp+

lemma pg_rejects_1235: "\<not> pg_accepts [1, 2, 3, 5] 4" "\<not> pg_accepts [Suc 0, 2, 3, 5] 4"
  by code_simp+

lemmas pg_simps =
  pg_accepts_1 pg_accepts_2 pg_accepts_4 pg_accepts_5 pg_accepts_6 pg_accepts_7 pg_rejects_1235




section \<open>Add transaction\<close>








section \<open>Delete transaction\<close>









section \<open>Update transaction\<close>

text \<open>The statement of line 140 is refused, so the handler always ends in its \<open>catch\<close>:
  it rolls back and answers 500.\<close>

lemma update_transaction_unchanged: "snd (update_transaction req d) = d"
  by (simp add: update_transaction_def update_transaction_with_def pg_simps Let_def
      split: option.splits)

lemma update_transaction_fails: "fst (update_transaction req d) \<noteq> Inr resp"
  by (simp add: update_transaction_def update_transaction_with_def pg_simps Let_def
      split: option.splits)

lemma tx_update_set_frame:
  "tx_status (tx_update_set amt date nt x) = tx_status x"
  "transaction_id (tx_update_set amt date nt x) = transaction_id x"
  "tx_vendor_id (tx_update_set amt date nt x) = tx_vendor_id x"
  by (simp_all add: tx_update_set_def)

lemma update_transaction_with_rows:
  "transactions (snd (update_transaction_with ph req d)) = transactions d \<or>
   (\<exists>tid amt date nt.
      transactions (snd (update_transaction_with ph req d)) =
        map (\<lambda>x. if transaction_id x = tid then tx_update_set amt date nt x else x) (transactions d))"
  by (auto simp: update_transaction_with_def set_pending_def Let_def split: option.splits)

text \<open>
  C8. Whatever placeholders the \<open>UPDATE transactions\<close> statement has, that is, whether the
  database refuses it (as it does the source's) or runs it, update-transaction leaves the
  status stored on every transaction row as it was, and the id and the owner with it: the
  \<open>SET\<close> clause assigns only \<open>amount\<close>, \<open>transaction_date\<close> and \<open>note\<close>, and the handler
  never writes the status it declares.
\<close>

theorem update_transaction_keeps_status:
  "map tx_status (transactions (snd (update_transaction_with ph req d))) =
     map tx_status (transactions d) \<and>
   map transaction_id (transactions (snd (update_transaction_with ph req d))) =
     map transaction_id (transactions d) \<and>
   map tx_vendor_id (transactions (snd (update_transaction_with ph req d))) =
     map tx_vendor_id (transactions d) \<and>
   map tx_status (transactions (snd (update_transaction req d))) = map tx_status (transactions d)"
proof -
  have same: "map g (map (\<lambda>x. if transaction_id x = tid then tx_update_set amt date nt x else x) xs) =
      map g xs" if "\<And>x. g (tx_update_set amt date nt x) = g x"
    for g :: "transaction_row \<Rightarrow> 'a" and tid amt date nt xs
    using that by (induction xs) simp_all
  show ?thesis
    using update_transaction_with_rows [of ph req d]
    by (auto simp: same tx_update_set_frame update_transaction_unchanged)
qed

text \<open>With the placeholders \<open>$1\<close> to \<open>$4\<close> the statement runs: editing transaction 1 of the
  example from 400 to 300 then changes its amount, keeps its status, and sets the vendor's
  pending amount to 700.\<close>

lemma update_transaction_with_4:
  "map amount (transactions (snd (update_transaction_with [1, 2, 3, 4] (pay 300) example_db))) =
     [Some (Fin 300)] \<and>
   map tx_status (transactions (snd (update_transaction_with [1, 2, 3, 4] (pay 300) example_db))) =
     [Partial] \<and>
   map pending_amount (vendors (snd (update_transaction_with [1, 2, 3, 4] (pay 300) example_db))) =
     [Some (Fin 700)]"
  by code_simp

text \<open>On finite amounts lines 132 to 135 compute the clamp of the specification.\<close>

lemma update_balance_fin:
  "update_balance (Fin t) (Fin p) (Fin a_old) (Fin a_new) = Fin (clamp (p + a_old - a_new) 0 t)"
  by (simp add: update_balance_def num_sub_def num_gt_def clamp_def Let_def min_def max_def)

text \<open>
  C5 does not hold on the code. Editing transaction 1 of the example (amount 400, vendor
  pending 600 of 1000) to 300: lines 132 to 135 compute \<open>clamp(600 + 400 - 300, 0, 1000) =
  700\<close>, but the \<open>UPDATE transactions\<close> that follows fails, the answer is 500, and neither
  the transaction nor the vendor changes.
\<close>

theorem update_transaction_rejected:
  "update_transaction (pay 300) example_db = (Inl ServerError, example_db) \<and>
   map amount (transactions example_db) = [Some (Fin 400)] \<and>
   map pending_amount (vendors example_db) = [Some (Fin 600)] \<and>
   update_balance (Fin 1000) (Fin 600) (Fin 400) (Fin 300) = Fin 700"
  by code_simp

section \<open>Update vendor\<close>





text \<open>
  C1 does not hold on the code. The example satisfies the invariant; lowering its total
  to 500 through update-vendor succeeds and stores pending 600 with total 500.
\<close>

theorem update_vendor_breaks_invariant:
  "db_inv example_db \<and>
   map_sum id uvr_status (fst (update_vendor (set_total (JStr ''500'') JUndefined) example_db)) = Inr Partial \<and>
   map total_amount (vendors (snd (update_vendor (set_total (JStr ''500'') JUndefined) example_db))) =
     [Some (Fin 500)] \<and>
   map pending_amount (vendors (snd (update_vendor (set_total (JStr ''500'') JUndefined) example_db))) =
     [Some (Fin 600)] \<and>
   \<not> db_inv (snd (update_vendor (set_total (JStr ''500'') JUndefined) example_db))"
  by code_simp

section \<open>List vendors\<close>






section \<open>Create vendor\<close>




text \<open>The test \<open>!total_amount\<close> of line 24 also holds for the JSON number 0, which is
  answered 400 as a missing field; the form field \<open>0\<close> is a non-empty string and is
  accepted.\<close>

lemma create_vendor_zero:
  "create_vendor (new_vendor (JNum (Fin 0))) example_db =
     (Inl (BadRequest ''Name, contact, and total amount are required''), example_db) \<and>
   map total_amount (vendors (snd (create_vendor (new_vendor (JStr ''0'')) example_db))) =
     [Some (Fin 1000), Some (Fin 0)]"
  by code_simp

section \<open>The invariant under the other handlers\<close>

text \<open>
  Create-vendor, delete-transaction and update-transaction keep \<open>0 \<le> pending_amount \<le>
  total_amount\<close> on every row; add-transaction keeps it when vendor ids are unique (the
  statement of line 236 writes one pending amount to every row with the id) and no total
  is infinite (\<open>Infinity - Infinity\<close> is \<open>NaN\<close>).
\<close>

lemma num_lt_NaN: "num_lt a NaN = False"
  by (cases a) simp_all

lemma num_eq_NaN: "num_eq a NaN = False"
  by (cases a) simp_all

lemma vendor_inv_amounts:
  assumes "vendor_inv v"
  obtains p t where "pending_amount v = Some p" and "total_amount v = Some t"
  using assms
  by (cases "pending_amount v"; cases "total_amount v")
    (auto simp: vendor_inv_def parseFloat_col_def num_le_def num_lt_NaN num_eq_NaN)

lemma num_le_nonneg:
  assumes "x \<noteq> NaN" and "\<not> num_lt x (Fin 0)"
  shows "num_le (Fin 0) x \<and> num_le x x"
  using assms by (cases x) (auto simp: num_le_def)

lemma create_vendor_keeps_invariant:
  assumes "db_inv d"
  shows "db_inv (snd (create_vendor req d))"
  using assms num_le_nonneg [of "parseFloat (cr_total_amount req)"]
  by (simp add: create_vendor_def db_inv_def vendor_inv_def parseFloat_col_def isNaN_def Let_def)

lemma restore_pending_keeps_invariant:
  assumes "vendor_inv v"
  shows "vendor_inv (restore_pending a v)"
proof -
  obtain p t where pt: "pending_amount v = Some p" "total_amount v = Some t"
    using assms by (rule vendor_inv_amounts)
  show ?thesis
    using assms pt
    by (cases p; cases t; cases a)
      (auto simp: vendor_inv_def restore_pending_def parseFloat_col_def num_le_def sql_coalesce_def
        sql_add_def sql_greatest_def sql_least_def sql_lt_def)
qed

lemma delete_transaction_keeps_invariant:
  assumes "db_inv d"
  shows "db_inv (snd (delete_transaction req d))"
  using assms
  by (auto simp: delete_transaction_def db_inv_def list_all_iff Let_def restore_pending_keeps_invariant
      split: option.splits)

lemma update_transaction_keeps_invariant:
  assumes "db_inv d"
  shows "db_inv (snd (update_transaction req d))"
  using assms by (simp add: update_transaction_unchanged)

lemma add_balance_keeps_invariant:
  assumes "vendor_inv v" and "total_amount v \<noteq> Some PosInf" and "amt \<noteq> NaN"
    and "\<not> num_le amt (Fin 0)"
  shows "vendor_inv (v\<lparr>pending_amount :=
      Some (fst (add_balance (parseFloat_col (total_amount v))
        (case pending_amount v of Some p \<Rightarrow> p | None \<Rightarrow> parseFloat_col (total_amount v)) amt))\<rparr>)"
proof -
  obtain p t where pt: "pending_amount v = Some p" "total_amount v = Some t"
    using assms(1) by (rule vendor_inv_amounts)
  show ?thesis
    using assms pt
    by (cases p; cases t; cases amt)
      (auto simp: vendor_inv_def add_balance_def parseFloat_col_def num_le_def num_sub_def
        EPSILON_def Let_def)
qed

lemma find_distinct:
  assumes "distinct (map f xs)" and "find (\<lambda>x. f x = k) xs = Some y" and "x \<in> set xs" and "f x = k"
  shows "x = y"
  using assms
proof (induction xs)
  case Nil
  then show ?case by simp
next
  case (Cons z zs)
  then show ?case
    by (cases "f z = k") (auto simp: image_iff)
qed

lemma add_transaction_keeps_invariant:
  assumes "db_inv d" and "distinct (map vendor_id (vendors d))"
    and "list_all (\<lambda>v. total_amount v \<noteq> Some PosInf) (vendors d)"
  shows "db_inv (snd (add_transaction req d))"
proof (cases "fst (add_transaction req d)")
  case (Inl e)
  then have "snd (add_transaction req d) = d"
    by (auto simp: add_transaction_def Let_def pg_simps split: option.splits if_splits prod.splits)
  with assms(1) show ?thesis by simp
next
  case (Inr resp)
  then obtain vid vendor where
    vid: "tr_id req = Some vid" and found: "find_vendor vid d = Some vendor"
    and amt: "parseFloat (tr_amount req) \<noteq> NaN" "\<not> num_le (parseFloat (tr_amount req)) (Fin 0)"
    by (auto simp: add_transaction_def Let_def isNaN_def split: option.splits if_splits)
  define np where "np = fst (add_balance (parseFloat_col (total_amount vendor))
      (case pending_amount vendor of Some p \<Rightarrow> p | None \<Rightarrow> parseFloat_col (total_amount vendor))
      (parseFloat (tr_amount req)))"
  have vs: "vendors (snd (add_transaction req d)) =
      map (\<lambda>v. if vendor_id v = vid then v\<lparr>pending_amount := Some np\<rparr> else v) (vendors d)"
    using vid found amt
    by (simp add: add_transaction_def Let_def isNaN_def pg_simps set_pending_def np_def
        split: prod.splits)
  have mem: "vendor \<in> set (vendors d)"
    using found by (auto simp: find_vendor_def find_Some_iff)
  have ok: "vendor_inv (vendor\<lparr>pending_amount := Some np\<rparr>)"
    unfolding np_def
    using add_balance_keeps_invariant [of vendor "parseFloat (tr_amount req)"] assms(1,3) mem amt
    by (simp add: db_inv_def list_all_iff)
  have same: "v = vendor" if "v \<in> set (vendors d)" "vendor_id v = vid" for v
    using find_distinct [OF assms(2) _ that] found by (simp add: find_vendor_def)
  show ?thesis
    unfolding db_inv_def vs
    using assms(1) ok same by (auto simp: db_inv_def list_all_iff)
qed

end
